theory Spec2Isabelle
  imports Main
begin

section \<open>Early stopping handlers of ignite\<close>

text \<open>
  The development embeds \<^verbatim>\<open>ignite/handlers/early_stopping.py\<close>: the class
  \<^verbatim>\<open>NoImprovementHandler\<close> and its specialisation \<^verbatim>\<open>EarlyStopping\<close>.

  Conventions of the embedding.
  \<^item> A score is a Python number, an int or a float; \<^verbatim>\<open>min_delta\<close> is a float. Floats
    are IEEE doubles with their rounding, their infinities and NaN; ints are unbounded.
  \<^item> \<^verbatim>\<open>patience\<close> is an int. The attributes \<^verbatim>\<open>counter\<close> and \<^verbatim>\<open>best_score\<close> hold
    whatever was assigned to them: a number or \<^verbatim>\<open>None\<close>.
  \<^item> Everything outside the handler object (the engines, the loggers, whatever the
    injected callbacks touch) is a world of type \<open>'w\<close>. A callback is a function on
    the world; it receives an engine and cannot write the fields of the handler.
  \<^item> An exception is a value of type \<open>error\<close>; a method that can raise after it has
    written to the object returns the object together with the exception, if any.
\<close>

subsection \<open>Python numbers\<close>

text \<open>
  \<open>Finite m e\<close> is the number \<open>m * 2 ^ e\<close>. A double is such a number with
  \<open>\<bar>m\<bar> < 2 ^ 53\<close> and \<open>- 1074 \<le> e \<le> 971\<close>, an infinity or NaN. A number has several
  such pairs, which the comparisons do not distinguish. The sign of a zero is not kept:
  no comparison depends on it.
\<close>

datatype pyfloat = Finite int int | PosInf | NegInf | NaN

datatype pynum = PyInt int | PyFloat pyfloat

datatype error =
    TypeError string
  | ValueError string
  | KeyError string
  | OverflowError string

text \<open>The number of binary digits of a positive int (\<^verbatim>\<open>int.bit_length\<close>).\<close>

function bit_length :: "int \<Rightarrow> nat" where
  "bit_length n = (if n \<le> 0 then 0 else Suc (bit_length (n div 2)))"
  by pat_completeness auto
termination
  by (relation "measure nat") auto

declare bit_length.simps [simp del]

text \<open>
  \<open>round_double m e\<close> is the double nearest to \<open>m * 2 ^ e\<close>, ties to the even
  mantissa: \<open>k\<close> low bits are dropped so that at most 53 bits remain and the exponent
  is not below \<open>- 1074\<close>; a result of magnitude \<open>2 ^ 1024\<close> or more is an infinity.
\<close>

definition round_double :: "int \<Rightarrow> int \<Rightarrow> pyfloat" where
  "round_double m e =
     (if m = 0 then Finite 0 0
      else
        let n = int (bit_length \<bar>m\<bar>);
            k = max (n - 53) (- 1074 - e);
            r = (if k \<le> 0 then m
                 else if m mod 2 ^ nat k > 2 ^ nat (k - 1)
                         \<or> (m mod 2 ^ nat k = 2 ^ nat (k - 1) \<and> odd (m div 2 ^ nat k))
                      then m div 2 ^ nat k + 1
                      else m div 2 ^ nat k);
            e' = (if k \<le> 0 then e else e + k)
        in if r = 0 then Finite 0 0
           else if int (bit_length \<bar>r\<bar>) + e' > 1024
                then (if m > 0 then PosInf else NegInf)
                else Finite r e')"

text \<open>Float addition: the exact sum, rounded.\<close>

fun float_add :: "pyfloat \<Rightarrow> pyfloat \<Rightarrow> pyfloat" where
  "float_add NaN y = NaN"
| "float_add x NaN = NaN"
| "float_add PosInf NegInf = NaN"
| "float_add NegInf PosInf = NaN"
| "float_add PosInf y = PosInf"
| "float_add NegInf y = NegInf"
| "float_add x PosInf = PosInf"
| "float_add x NegInf = NegInf"
| "float_add (Finite m1 e1) (Finite m2 e2) =
     round_double (m1 * 2 ^ nat (e1 - min e1 e2) + m2 * 2 ^ nat (e2 - min e1 e2)) (min e1 e2)"

text \<open>Comparisons are exact; every comparison with NaN is false.\<close>

definition fin_le :: "int \<Rightarrow> int \<Rightarrow> int \<Rightarrow> int \<Rightarrow> bool" where
  "fin_le m1 e1 m2 e2 \<longleftrightarrow>
     m1 * 2 ^ nat (e1 - min e1 e2) \<le> m2 * 2 ^ nat (e2 - min e1 e2)"

definition fin_lt :: "int \<Rightarrow> int \<Rightarrow> int \<Rightarrow> int \<Rightarrow> bool" where
  "fin_lt m1 e1 m2 e2 \<longleftrightarrow>
     m1 * 2 ^ nat (e1 - min e1 e2) < m2 * 2 ^ nat (e2 - min e1 e2)"

fun float_le :: "pyfloat \<Rightarrow> pyfloat \<Rightarrow> bool" where
  "float_le NaN y = False"
| "float_le x NaN = False"
| "float_le NegInf y = True"
| "float_le x PosInf = True"
| "float_le PosInf y = False"
| "float_le x NegInf = False"
| "float_le (Finite m1 e1) (Finite m2 e2) = fin_le m1 e1 m2 e2"

fun float_lt :: "pyfloat \<Rightarrow> pyfloat \<Rightarrow> bool" where
  "float_lt NaN y = False"
| "float_lt x NaN = False"
| "float_lt PosInf y = False"
| "float_lt x NegInf = False"
| "float_lt NegInf y = True"
| "float_lt x PosInf = True"
| "float_lt (Finite m1 e1) (Finite m2 e2) = fin_lt m1 e1 m2 e2"

text \<open>Python compares an int with a float by their exact values.\<close>

fun exact :: "pynum \<Rightarrow> pyfloat" where
  "exact (PyInt i) = Finite i 0"
| "exact (PyFloat x) = x"

definition num_le :: "pynum \<Rightarrow> pynum \<Rightarrow> bool" where
  "num_le a b = float_le (exact a) (exact b)"

definition num_lt :: "pynum \<Rightarrow> pynum \<Rightarrow> bool" where
  "num_lt a b = float_lt (exact a) (exact b)"

definition num_gt :: "pynum \<Rightarrow> pynum \<Rightarrow> bool" where
  "num_gt a b = num_lt b a"

definition num_ge :: "pynum \<Rightarrow> pynum \<Rightarrow> bool" where
  "num_ge a b = num_le b a"

text \<open>In arithmetic with a float an int is converted to a float first; the conversion
  rounds, and raises for an int that rounds to an infinity.\<close>

definition int_to_float :: "int \<Rightarrow> error + pyfloat" where
  "int_to_float i =
     (case round_double i 0 of
        PosInf \<Rightarrow> Inl (OverflowError ''int too large to convert to float'')
      | NegInf \<Rightarrow> Inl (OverflowError ''int too large to convert to float'')
      | x \<Rightarrow> Inr x)"

text \<open>\<^verbatim>\<open>a + d\<close> for a number \<open>a\<close> and a float \<open>d\<close>.\<close>

fun num_add_float :: "pynum \<Rightarrow> pyfloat \<Rightarrow> error + pyfloat" where
  "num_add_float (PyInt i) d =
     (case int_to_float i of Inl err \<Rightarrow> Inl err | Inr x \<Rightarrow> Inr (float_add x d))"
| "num_add_float (PyFloat x) d = Inr (float_add x d)"

text \<open>\<^verbatim>\<open>c += 1\<close> and \<^verbatim>\<open>c >= p\<close> for the value \<open>c\<close> of an attribute and an int \<open>p\<close>.\<close>

fun iadd_one :: "pynum option \<Rightarrow> error + pynum option" where
  "iadd_one None =
     Inl (TypeError (''unsupported operand type(s) for +=: 'NoneType' and 'int'' @ [CHR 0x27]))"
| "iadd_one (Some (PyInt i)) = Inr (Some (PyInt (i + 1)))"
| "iadd_one (Some (PyFloat x)) = Inr (Some (PyFloat (float_add x (Finite 1 0))))"

fun ge_int :: "pynum option \<Rightarrow> int \<Rightarrow> error + bool" where
  "ge_int None p =
     Inl (TypeError (CHR 0x27 # ''>=' not supported between instances of 'NoneType' and 'int''
                       @ [CHR 0x27]))"
| "ge_int (Some c) p = Inr (num_ge c (PyInt p))"

subsection \<open>Dynamically typed arguments\<close>

text \<open>
  The constructor checks its arguments at run time with \<^verbatim>\<open>callable\<close> and
  \<^verbatim>\<open>isinstance\<close>. An argument that should be a callable is either one or some
  other object; an argument that should be an engine likewise.
\<close>

datatype 'f pyarg = Callable 'f | NotCallable

datatype 't pyobj = EngineInstance 't | NotEngine

subsection \<open>The handler object\<close>

record ('e, 't, 'w) NoImprovementHandler =
  patience :: int
  score_function :: "'e \<Rightarrow> 'w \<Rightarrow> pynum \<times> 'w"
  pass_function :: "'t \<Rightarrow> 'w \<Rightarrow> 'w"
  stop_function :: "'t \<Rightarrow> 'w \<Rightarrow> 'w"
  trainer :: 't
  counter :: "pynum option"
  best_score :: "pynum option"
  min_delta :: pyfloat
  cumulative_delta :: bool

text \<open>\<^verbatim>\<open>NoImprovementHandler.__init__\<close>: the six checks in the order of the source,
  then the initial state with \<^verbatim>\<open>counter = 0\<close> and \<^verbatim>\<open>best_score = None\<close>.\<close>

definition NoImprovementHandler_init ::
  "int \<Rightarrow> ('e \<Rightarrow> 'w \<Rightarrow> pynum \<times> 'w) pyarg \<Rightarrow> ('t \<Rightarrow> 'w \<Rightarrow> 'w) pyarg \<Rightarrow> ('t \<Rightarrow> 'w \<Rightarrow> 'w) pyarg
     \<Rightarrow> 't pyobj \<Rightarrow> pyfloat \<Rightarrow> bool \<Rightarrow> error + ('e, 't, 'w) NoImprovementHandler" where
  "NoImprovementHandler_init patience_arg score_arg pass_arg stop_arg trainer_arg min_delta_arg cumulative_arg =
     (case score_arg of
        NotCallable \<Rightarrow> Inl (TypeError ''Argument score_function should be a function.'')
      | Callable sf \<Rightarrow>
     (case pass_arg of
        NotCallable \<Rightarrow> Inl (TypeError ''Argument pass_function should be a function.'')
      | Callable pf \<Rightarrow>
     (case stop_arg of
        NotCallable \<Rightarrow> Inl (TypeError ''Argument stop_function should be a function.'')
      | Callable stf \<Rightarrow>
     (case trainer_arg of
        NotEngine \<Rightarrow> Inl (TypeError ''Argument trainer should be an instance of Engine.'')
      | EngineInstance tr \<Rightarrow>
        if patience_arg < 1 then
          Inl (ValueError ''Argument patience should be positive integer.'')
        else if float_lt min_delta_arg (Finite 0 0) then
          Inl (ValueError ''Argument min_delta should not be a negative number.'')
        else
          Inr \<lparr> patience = patience_arg, score_function = sf, pass_function = pf,
                stop_function = stf, trainer = tr, counter = Some (PyInt 0), best_score = None,
                min_delta = min_delta_arg, cumulative_delta = cumulative_arg \<rparr>))))"

text \<open>\<^verbatim>\<open>NoImprovementHandler._update_state\<close>: the three branches of the source. The sum
  \<^verbatim>\<open>self.best_score + self.min_delta\<close> can raise, before anything is written; the
  increment of the counter can raise, after the best score may have been written.\<close>

definition update_state ::
  "pynum \<Rightarrow> ('e, 't, 'w, 'z) NoImprovementHandler_scheme
     \<Rightarrow> ('e, 't, 'w, 'z) NoImprovementHandler_scheme \<times> error option" where
  "update_state score h =
     (case best_score h of
        None \<Rightarrow> (h\<lparr>best_score := Some score\<rparr>, None)
      | Some best \<Rightarrow>
     (case num_add_float best (min_delta h) of
        Inl err \<Rightarrow> (h, Some err)
      | Inr bound \<Rightarrow>
          if num_le score (PyFloat bound) then
            (let h1 = (if \<not> cumulative_delta h \<and> num_gt score best
                       then h\<lparr>best_score := Some score\<rparr> else h)
             in case iadd_one (counter h1) of
                  Inl err \<Rightarrow> (h1, Some err)
                | Inr c \<Rightarrow> (h1\<lparr>counter := c\<rparr>, None))
          else (h\<lparr>best_score := Some score, counter := Some (PyInt 0)\<rparr>, None)))"

text \<open>\<^verbatim>\<open>NoImprovementHandler.__call__\<close>: compute the score, update the state, then
  call one of the two callbacks on the stored trainer. The result is the handler, the
  world after the call and the exception that the call raised, if any.\<close>

definition call ::
  "('e, 't, 'w, 'z) NoImprovementHandler_scheme \<Rightarrow> 'e \<Rightarrow> 'w
     \<Rightarrow> ('e, 't, 'w, 'z) NoImprovementHandler_scheme \<times> 'w \<times> error option" where
  "call h engine w =
     (case score_function h engine w of
        (score, w1) \<Rightarrow>
     (case update_state score h of
        (h1, Some err) \<Rightarrow> (h1, w1, Some err)
      | (h1, None) \<Rightarrow>
     (case ge_int (counter h1) (patience h1) of
        Inl err \<Rightarrow> (h1, w1, Some err)
      | Inr True \<Rightarrow> (h1, stop_function h1 (trainer h1) w1, None)
      | Inr False \<Rightarrow> (h1, pass_function h1 (trainer h1) w1, None))))"

subsection \<open>Persisted state\<close>

text \<open>
  A state dict is an ordered Python dictionary from strings to values; a lookup is
  \<open>map_of\<close>. A value is a number or \<^verbatim>\<open>None\<close>.
\<close>

type_synonym py_state_dict = "(string \<times> pynum option) list"

text \<open>\<^verbatim>\<open>NoImprovementHandler.state_dict\<close>. The \<^verbatim>\<open>cast\<close> of the source does nothing at
  run time.\<close>

definition state_dict :: "('e, 't, 'w, 'z) NoImprovementHandler_scheme \<Rightarrow> py_state_dict" where
  "state_dict h = [(''counter'', counter h), (''best_score'', best_score h)]"

text \<open>
  Modelled from the spec: \<^verbatim>\<open>Serializable.load_state_dict\<close> of \<^verbatim>\<open>ignite.base\<close>, the
  base class method that \<^verbatim>\<open>load_state_dict\<close> calls first, is not among the sources.
  The spec says of it that restoring requires the keys to be present: the method
  fails at the first key of the class attribute \<^verbatim>\<open>_state_dict_all_req_keys\<close>
  that the state dict lacks, here with a \<^verbatim>\<open>ValueError\<close> that names the key. The
  attribute is a parameter; \<^verbatim>\<open>EarlyStopping\<close> sets it to the two keys.
\<close>

fun Serializable_load_state_dict :: "string list \<Rightarrow> py_state_dict \<Rightarrow> error option" where
  "Serializable_load_state_dict [] sd = None"
| "Serializable_load_state_dict (k # ks) sd =
     (if map_of sd k = None then Some (ValueError k)
      else Serializable_load_state_dict ks sd)"

text \<open>\<^verbatim>\<open>NoImprovementHandler.load_state_dict\<close>: the base class check, then the two
  assignments in the order of the source, each of the value as it is. An indexing of
  a missing key raises \<^verbatim>\<open>KeyError\<close>; the handler is returned as the exception
  leaves it.\<close>

definition load_state_dict ::
  "string list \<Rightarrow> ('e, 't, 'w, 'z) NoImprovementHandler_scheme \<Rightarrow> py_state_dict
     \<Rightarrow> ('e, 't, 'w, 'z) NoImprovementHandler_scheme \<times> error option" where
  "load_state_dict req_keys h sd =
     (case Serializable_load_state_dict req_keys sd of
        Some e \<Rightarrow> (h, Some e)
      | None \<Rightarrow>
     (case map_of sd ''counter'' of
        None \<Rightarrow> (h, Some (KeyError ''counter''))
      | Some c \<Rightarrow>
     (let h1 = h\<lparr>counter := c\<rparr> in
     (case map_of sd ''best_score'' of
        None \<Rightarrow> (h1, Some (KeyError ''best_score''))
      | Some b \<Rightarrow> (h1\<lparr>best_score := b\<rparr>, None)))))"

subsection \<open>The stopping specialisation\<close>

text \<open>
  \<^verbatim>\<open>EarlyStopping\<close> uses \<^verbatim>\<open>setup_logger\<close> of \<^verbatim>\<open>ignite.utils\<close>, the \<^verbatim>\<open>info\<close>
  method of the logger it returns and \<^verbatim>\<open>Engine.terminate\<close> of \<^verbatim>\<open>ignite.engine\<close>.
  None of them is among the sources: they are parameters.
\<close>

record ('t, 'w, 'l) collaborators =
  setup_logger :: "string \<Rightarrow> 'l"
  logger_info :: "'l \<Rightarrow> string \<Rightarrow> 'w \<Rightarrow> 'w"
  terminate :: "'t \<Rightarrow> 'w \<Rightarrow> 'w"

record ('e, 't, 'w, 'l) EarlyStopping = "('e, 't, 'w) NoImprovementHandler" +
  logger :: 'l

definition EarlyStopping_state_dict_all_req_keys :: "string list" where
  "EarlyStopping_state_dict_all_req_keys = [''counter'', ''best_score'']"

text \<open>\<^verbatim>\<open>EarlyStopping.pass_function\<close> and \<^verbatim>\<open>EarlyStopping.stop_function\<close>. They are
  bound methods; the stop method reads \<^verbatim>\<open>self.logger\<close>, which only the constructor
  assigns, so the model passes the logger to it.\<close>

definition EarlyStopping_pass_function :: "'t \<Rightarrow> 'w \<Rightarrow> 'w" where
  "EarlyStopping_pass_function tr w = w"

definition EarlyStopping_stop_function :: "('t, 'w, 'l) collaborators \<Rightarrow> 'l \<Rightarrow> 't \<Rightarrow> 'w \<Rightarrow> 'w" where
  "EarlyStopping_stop_function ext lg tr w =
     terminate ext tr (logger_info ext lg ''EarlyStopping: Stop training'' w)"

definition EarlyStopping_logger_name :: string where
  "EarlyStopping_logger_name = ''ignite.handlers.early_stopping'' @ ''.'' @ ''EarlyStopping''"

text \<open>\<^verbatim>\<open>EarlyStopping.__init__\<close>: the constructor of the base class on the two bound
  methods, then the logger.\<close>

definition EarlyStopping_init ::
  "('t, 'w, 'l) collaborators \<Rightarrow> int \<Rightarrow> ('e \<Rightarrow> 'w \<Rightarrow> pynum \<times> 'w) pyarg \<Rightarrow> 't pyobj \<Rightarrow> pyfloat \<Rightarrow> bool
     \<Rightarrow> error + ('e, 't, 'w, 'l) EarlyStopping" where
  "EarlyStopping_init ext patience_arg score_arg trainer_arg min_delta_arg cumulative_arg =
     (let lg = setup_logger ext EarlyStopping_logger_name in
      case NoImprovementHandler_init patience_arg score_arg
             (Callable EarlyStopping_pass_function)
             (Callable (EarlyStopping_stop_function ext lg))
             trainer_arg min_delta_arg cumulative_arg of
        Inl e \<Rightarrow> Inl e
      | Inr h \<Rightarrow> Inr (NoImprovementHandler.extend h (EarlyStopping.fields lg)))"

text \<open>\<^verbatim>\<open>EarlyStopping.__call__\<close> only calls the method of the base class.\<close>

definition EarlyStopping_call ::
  "('e, 't, 'w, 'l) EarlyStopping \<Rightarrow> 'e \<Rightarrow> 'w
     \<Rightarrow> ('e, 't, 'w, 'l) EarlyStopping \<times> 'w \<times> error option" where
  "EarlyStopping_call h engine w = call h engine w"

subsection \<open>Sequences of calls\<close>

text \<open>The engine fires its event once per evaluation: \<open>run\<close> calls the handler on each
  engine in turn and lists the handler, the world and the exception after every call;
  an exception ends the run. \<open>scores\<close> lists the score that the score function
  returned in every call of the run.\<close>

fun run ::
  "('e, 't, 'w, 'z) NoImprovementHandler_scheme \<Rightarrow> 'e list \<Rightarrow> 'w
     \<Rightarrow> (('e, 't, 'w, 'z) NoImprovementHandler_scheme \<times> 'w \<times> error option) list" where
  "run h [] w = []"
| "run h (e # es) w =
     (case call h e w of
        (h', w', None) \<Rightarrow> (h', w', None) # run h' es w'
      | (h', w', Some err) \<Rightarrow> [(h', w', Some err)])"



subsection \<open>A recording world\<close>

text \<open>
  For concrete runs the world is the list of the calls made so far, a trainer and a
  logger are named by strings, and the engine that the handler is attached to is
  given by the score that its metrics yield.
\<close>

datatype event =
    PassCalled string
  | StopCalled string
  | LoggedInfo string string
  | Terminated string

definition metric_score :: "pynum \<Rightarrow> event list \<Rightarrow> pynum \<times> event list" where
  "metric_score e w = (e, w)"

definition record_pass :: "string \<Rightarrow> event list \<Rightarrow> event list" where
  "record_pass tr w = w @ [PassCalled tr]"

definition record_stop :: "string \<Rightarrow> event list \<Rightarrow> event list" where
  "record_stop tr w = w @ [StopCalled tr]"

definition record_info :: "string \<Rightarrow> string \<Rightarrow> event list \<Rightarrow> event list" where
  "record_info lg msg w = w @ [LoggedInfo lg msg]"

definition record_terminate :: "string \<Rightarrow> event list \<Rightarrow> event list" where
  "record_terminate tr w = w @ [Terminated tr]"

definition recording :: "(string, event list, string) collaborators" where
  "recording = \<lparr> setup_logger = id, logger_info = record_info, terminate = record_terminate \<rparr>"

text \<open>A handler as the constructor builds it, with recording callbacks, in the state
  with the given counter and best score.\<close>

definition recording_handler ::
  "int \<Rightarrow> pyfloat \<Rightarrow> bool \<Rightarrow> pynum option \<Rightarrow> pynum option
     \<Rightarrow> (pynum, string, event list) NoImprovementHandler" where
  "recording_handler p d cd c b =
     \<lparr> patience = p, score_function = metric_score, pass_function = record_pass,
       stop_function = record_stop, trainer = ''trainer'', counter = c, best_score = b,
       min_delta = d, cumulative_delta = cd \<rparr>"

definition recording_early_stopping ::
  "int \<Rightarrow> pyfloat \<Rightarrow> bool \<Rightarrow> pynum option \<Rightarrow> pynum option
     \<Rightarrow> (pynum, string, event list, string) EarlyStopping" where
  "recording_early_stopping p d cd c b =
     \<lparr> patience = p, score_function = metric_score,
       pass_function = EarlyStopping_pass_function,
       stop_function = EarlyStopping_stop_function recording EarlyStopping_logger_name,
       trainer = ''trainer'', counter = c, best_score = b,
       min_delta = d, cumulative_delta = cd, logger = EarlyStopping_logger_name \<rparr>"

text \<open>The doubles that the float literals of the examples denote.\<close>

definition float_neg_0_1 :: pyfloat where "float_neg_0_1 = Finite (- 3602879701896397) (- 55)"
definition float_neg_0_5 :: pyfloat where "float_neg_0_5 = Finite (- 1) (- 1)"
definition float_neg_0_6 :: pyfloat where "float_neg_0_6 = Finite (- 5404319552844595) (- 53)"
definition float_0_1 :: pyfloat where "float_0_1 = Finite 3602879701896397 (- 55)"
definition float_0_2 :: pyfloat where "float_0_2 = Finite 3602879701896397 (- 54)"
definition float_0_30000000000000004 :: pyfloat where
  "float_0_30000000000000004 = Finite 5404319552844596 (- 54)"
definition float_0_9 :: pyfloat where "float_0_9 = Finite 8106479329266893 (- 53)"
definition float_2_5 :: pyfloat where "float_2_5 = Finite 5 (- 1)"

definition raises_TypeError :: "error + 'a \<Rightarrow> bool" where
  "raises_TypeError r = (case r of Inl (TypeError msg) \<Rightarrow> True | _ \<Rightarrow> False)"

definition raises_ValueError :: "error + 'a \<Rightarrow> bool" where
  "raises_ValueError r = (case r of Inl (ValueError msg) \<Rightarrow> True | _ \<Rightarrow> False)"

subsection \<open>Facts about the comparisons\<close>

lemma float_lt_not_le: "float_lt y x \<Longrightarrow> \<not> float_le x y"
  by (cases x; cases y) (auto simp: fin_le_def fin_lt_def min.commute)

lemma num_gt_not_le: "num_gt a b \<Longrightarrow> \<not> num_le a b"
  by (simp add: num_gt_def num_lt_def num_le_def float_lt_not_le)

text \<open>
  The sum is the rounded one. The float sum of 0.1 and 0.2 is 0.30000000000000004, so with
  a patience of 1 and a minimal delta of 0.2 the scores 0.1, 0.30000000000000004 count
  as one non-improvement and the stop callback is called. The int \<open>2 ^ 53 + 1\<close> is
  converted to the float \<open>2 ^ 53\<close> (that is \<open>2 ^ 52 * 2 ^ 1\<close>), and that plus 1.0 is
  again \<open>2 ^ 53\<close>, so with the
  best score \<open>2 ^ 53 + 1\<close> and a minimal delta of 1.0 the score \<open>2 ^ 53 + 2\<close> resets
  the counter.
\<close>

lemma rounded_sum_of_floats:
  "float_add float_0_1 float_0_2 = float_0_30000000000000004 \<and>
   map (\<lambda>r. (counter (fst r), snd r))
     (run (recording_handler 1 float_0_2 False (Some (PyInt 0)) None)
        [PyFloat float_0_1, PyFloat float_0_30000000000000004] [])
     = [(Some (PyInt 0), [PassCalled ''trainer''], None),
        (Some (PyInt 1), [PassCalled ''trainer'', StopCalled ''trainer''], None)]"
  by code_simp

lemma rounded_sum_of_int_and_float:
  "int_to_float 9007199254740993 = Inr (Finite 4503599627370496 1) \<and>
   num_add_float (PyInt 9007199254740993) (Finite 1 0) = Inr (Finite 4503599627370496 1) \<and>
   counter (fst (update_state (PyInt 9007199254740994)
      (recording_handler 1 (Finite 1 0) False (Some (PyInt 3)) (Some (PyInt 9007199254740993)))))
     = Some (PyInt 0)"
  by code_simp

subsection \<open>The state update\<close>

text \<open>
  C2. For every state and every score the update follows the three-branch rule, with
  the sum \<^verbatim>\<open>best_score + min_delta\<close> and the comparisons as Python evaluates them
  (float addition rounds; a comparison with NaN is false). With no best score recorded
  the score becomes the best and the counter is unchanged. With a best score \<open>b\<close> and
  \<open>score \<le> b + min_delta\<close> the counter is incremented, an int counter by exactly one,
  and the best score becomes the score exactly when cumulative mode is off and
  \<open>score > b\<close> (it stays \<open>b\<close> otherwise). With \<open>score > b + min_delta\<close>, and in general
  when \<open>score \<le> b + min_delta\<close> is false, the score becomes the best and the counter
  is reset to zero. The remaining cases are the exceptions of Python: the sum raises
  for an int too large for a float, and nothing is written; the increment raises for a
  counter that is \<^verbatim>\<open>None\<close>, after the best score was written.
\<close>

theorem update_state_three_branches:
  "(best_score h = None \<longrightarrow>
      best_score (fst (update_state score h)) = Some score \<and>
      counter (fst (update_state score h)) = counter h \<and>
      snd (update_state score h) = None) \<and>
   (\<forall>b bound c. best_score h = Some b \<and> num_add_float b (min_delta h) = Inr bound \<and>
        num_le score (PyFloat bound) \<and> counter h = Some (PyInt c) \<longrightarrow>
      counter (fst (update_state score h)) = Some (PyInt (c + 1)) \<and>
      best_score (fst (update_state score h)) =
        (if \<not> cumulative_delta h \<and> num_gt score b then Some score else Some b) \<and>
      snd (update_state score h) = None) \<and>
   (\<forall>b bound c'. best_score h = Some b \<and> num_add_float b (min_delta h) = Inr bound \<and>
        num_le score (PyFloat bound) \<and> iadd_one (counter h) = Inr c' \<longrightarrow>
      counter (fst (update_state score h)) = c' \<and>
      best_score (fst (update_state score h)) =
        (if \<not> cumulative_delta h \<and> num_gt score b then Some score else Some b) \<and>
      snd (update_state score h) = None) \<and>
   (\<forall>b bound. best_score h = Some b \<and> num_add_float b (min_delta h) = Inr bound \<and>
        num_gt score (PyFloat bound) \<longrightarrow>
      best_score (fst (update_state score h)) = Some score \<and>
      counter (fst (update_state score h)) = Some (PyInt 0) \<and>
      snd (update_state score h) = None) \<and>
   (\<forall>b bound. best_score h = Some b \<and> num_add_float b (min_delta h) = Inr bound \<and>
        \<not> num_le score (PyFloat bound) \<longrightarrow>
      best_score (fst (update_state score h)) = Some score \<and>
      counter (fst (update_state score h)) = Some (PyInt 0) \<and>
      snd (update_state score h) = None) \<and>
   (\<forall>b err. best_score h = Some b \<and> num_add_float b (min_delta h) = Inl err \<longrightarrow>
      update_state score h = (h, Some err)) \<and>
   (\<forall>b bound err. best_score h = Some b \<and> num_add_float b (min_delta h) = Inr bound \<and>
        num_le score (PyFloat bound) \<and> iadd_one (counter h) = Inl err \<longrightarrow>
      counter (fst (update_state score h)) = counter h \<and>
      best_score (fst (update_state score h)) =
        (if \<not> cumulative_delta h \<and> num_gt score b then Some score else Some b) \<and>
      snd (update_state score h) = Some err)"
  by (auto simp: update_state_def Let_def dest: num_gt_not_le)

lemma sum_0_1_0_2:
  "num_add_float (PyFloat float_0_1) float_0_2 = Inr float_0_30000000000000004"
  by code_simp

lemma le_0_30000000000000004:
  "num_le (PyFloat float_0_30000000000000004) (PyFloat float_0_30000000000000004)"
  by code_simp

lemma gt_0_30000000000000004_0_1:
  "num_gt (PyFloat float_0_30000000000000004) (PyFloat float_0_1)"
  by code_simp

lemma gt_1_0_30000000000000004:
  "num_gt (PyFloat (Finite 1 0)) (PyFloat float_0_30000000000000004)"
  by code_simp

lemma not_le_NaN: "\<not> num_le (PyFloat NaN) b"
  by (simp add: num_le_def)

theorem update_state_three_branches_witness:
  "best_score (recording_handler 3 float_0_2 False (Some (PyInt 0)) None) = None \<and>
   best_score (fst (update_state (PyFloat float_0_1)
      (recording_handler 3 float_0_2 False (Some (PyInt 0)) None))) = Some (PyFloat float_0_1) \<and>
   counter (fst (update_state (PyFloat float_0_1)
      (recording_handler 3 float_0_2 False (Some (PyInt 0)) None))) = Some (PyInt 0) \<and>
   num_add_float (PyFloat float_0_1) float_0_2 = Inr float_0_30000000000000004 \<and>
   num_le (PyFloat float_0_30000000000000004) (PyFloat float_0_30000000000000004) \<and>
   counter (fst (update_state (PyFloat float_0_30000000000000004)
      (recording_handler 3 float_0_2 False (Some (PyInt 2)) (Some (PyFloat float_0_1)))))
     = Some (PyInt 3) \<and>
   best_score (fst (update_state (PyFloat float_0_30000000000000004)
      (recording_handler 3 float_0_2 False (Some (PyInt 2)) (Some (PyFloat float_0_1)))))
     = Some (PyFloat float_0_30000000000000004) \<and>
   num_gt (PyFloat (Finite 1 0)) (PyFloat float_0_30000000000000004) \<and>
   counter (fst (update_state (PyFloat (Finite 1 0))
      (recording_handler 3 float_0_2 False (Some (PyInt 2)) (Some (PyFloat float_0_1)))))
     = Some (PyInt 0) \<and>
   best_score (fst (update_state (PyFloat (Finite 1 0))
      (recording_handler 3 float_0_2 False (Some (PyInt 2)) (Some (PyFloat float_0_1)))))
     = Some (PyFloat (Finite 1 0)) \<and>
   \<not> num_le (PyFloat NaN) (PyFloat float_0_30000000000000004) \<and>
   counter (fst (update_state (PyFloat NaN)
      (recording_handler 3 float_0_2 False (Some (PyInt 2)) (Some (PyFloat float_0_1)))))
     = Some (PyInt 0) \<and>
   best_score (fst (update_state (PyFloat NaN)
      (recording_handler 3 float_0_2 False (Some (PyInt 2)) (Some (PyFloat float_0_1)))))
     = Some (PyFloat NaN)"
  using update_state_three_branches
      [of "recording_handler 3 float_0_2 False (Some (PyInt 0)) None" "PyFloat float_0_1"]
    update_state_three_branches
      [of "recording_handler 3 float_0_2 False (Some (PyInt 2)) (Some (PyFloat float_0_1))"
          "PyFloat float_0_30000000000000004"]
    update_state_three_branches
      [of "recording_handler 3 float_0_2 False (Some (PyInt 2)) (Some (PyFloat float_0_1))"
          "PyFloat (Finite 1 0)"]
    update_state_three_branches
      [of "recording_handler 3 float_0_2 False (Some (PyInt 2)) (Some (PyFloat float_0_1))"
          "PyFloat NaN"]
    sum_0_1_0_2 le_0_30000000000000004 gt_0_30000000000000004_0_1 gt_1_0_30000000000000004
    not_le_NaN [of "PyFloat float_0_30000000000000004"]
  by (simp add: recording_handler_def)

text \<open>The update and the call change no field but the counter and the best score.\<close>

lemma update_state_frame:
  "\<exists>c b. fst (update_state score h) = h\<lparr>counter := c, best_score := b\<rparr>"
proof -
  have "fst (update_state score h) =
      h\<lparr>counter := counter (fst (update_state score h)),
        best_score := best_score (fst (update_state score h))\<rparr>"
    by (simp add: update_state_def Let_def split: option.split sum.split)
  then show ?thesis by blast
qed

lemma update_state_config:
  "patience (fst (update_state score h)) = patience h"
  "score_function (fst (update_state score h)) = score_function h"
  "pass_function (fst (update_state score h)) = pass_function h"
  "stop_function (fst (update_state score h)) = stop_function h"
  "trainer (fst (update_state score h)) = trainer h"
  "min_delta (fst (update_state score h)) = min_delta h"
  "cumulative_delta (fst (update_state score h)) = cumulative_delta h"
  "NoImprovementHandler.more (fst (update_state score h)) = NoImprovementHandler.more h"
  by (simp_all add: update_state_def Let_def split: option.split sum.split)

text \<open>The call, with the score and the world that the score function returns.\<close>

lemma call_eq:
  "call h engine w =
     (fst (update_state (fst (score_function h engine w)) h),
      (case snd (update_state (fst (score_function h engine w)) h) of
         Some err \<Rightarrow> (snd (score_function h engine w), Some err)
       | None \<Rightarrow>
           (case ge_int (counter (fst (update_state (fst (score_function h engine w)) h)))
                   (patience h) of
              Inl err \<Rightarrow> (snd (score_function h engine w), Some err)
            | Inr True \<Rightarrow> (stop_function h (trainer h) (snd (score_function h engine w)), None)
            | Inr False \<Rightarrow> (pass_function h (trainer h) (snd (score_function h engine w)), None))))"
proof -
  obtain s w1 where sw: "score_function h engine w = (s, w1)"
    by (cases "score_function h engine w")
  obtain h1 err where u: "update_state s h = (h1, err)"
    by (cases "update_state s h")
  have cfg: "patience h1 = patience h" "stop_function h1 = stop_function h"
    "pass_function h1 = pass_function h" "trainer h1 = trainer h"
    using update_state_config [of s h] by (simp_all add: u)
  show ?thesis
    by (cases err) (simp_all add: call_def sw u cfg split: sum.split bool.split)
qed

lemma num_ge_int: "num_ge (PyInt c) (PyInt p) \<longleftrightarrow> p \<le> c"
  by (simp add: num_ge_def num_le_def fin_le_def)

lemma update_state_counter_number:
  "snd (update_state score h) = None \<Longrightarrow> counter h \<noteq> None \<Longrightarrow>
   counter (fst (update_state score h)) \<noteq> None"
  by (cases "counter h"; cases "the (counter h)")
     (auto simp: update_state_def Let_def split: option.splits sum.splits if_splits)

lemma update_state_completes:
  "counter h \<noteq> None \<Longrightarrow>
   \<forall>b. best_score h = Some b \<longrightarrow> (\<exists>bound. num_add_float b (min_delta h) = Inr bound) \<Longrightarrow>
   snd (update_state score h) = None"
  by (cases "counter h"; cases "the (counter h)")
     (auto simp: update_state_def Let_def split: option.splits sum.splits)

subsection \<open>The decision\<close>

text \<open>
  C1. In every call, after the score is computed and the state updated, exactly one of
  the two callbacks is applied to the stored trainer: the stop callback when
  \<open>counter \<ge> patience\<close>, the pass callback otherwise. The decision does not touch the
  counter: the handler after the call is the one that the update left. With recording
  callbacks the call appends exactly one event to the world. The only calls without a
  callback are those in which Python raises, and no call raises when the counter is a
  number and the sum \<^verbatim>\<open>best_score + min_delta\<close> is defined, as it is for every float
  best score.
\<close>

theorem call_invokes_exactly_one_callback:
  "fst (call h engine w) = fst (update_state (fst (score_function h engine w)) h) \<and>
   counter (fst (call h engine w))
     = counter (fst (update_state (fst (score_function h engine w)) h)) \<and>
   (snd (update_state (fst (score_function h engine w)) h) = None \<and>
    counter (fst (call h engine w)) = Some (PyInt c) \<and> patience h \<le> c \<longrightarrow>
      snd (call h engine w)
        = (stop_function h (trainer h) (snd (score_function h engine w)), None)) \<and>
   (snd (update_state (fst (score_function h engine w)) h) = None \<and>
    counter (fst (call h engine w)) = Some (PyInt c) \<and> c < patience h \<longrightarrow>
      snd (call h engine w)
        = (pass_function h (trainer h) (snd (score_function h engine w)), None)) \<and>
   (snd (update_state (fst (score_function h engine w)) h) = None \<and>
    counter (fst (call h engine w)) = Some n \<longrightarrow>
      snd (call h engine w)
        = ((if num_ge n (PyInt (patience h))
            then stop_function h (trainer h) (snd (score_function h engine w))
            else pass_function h (trainer h) (snd (score_function h engine w))), None)) \<and>
   (snd (update_state (fst (score_function h engine w)) h) = None \<and> counter h \<noteq> None \<longrightarrow>
      counter (fst (call h engine w)) \<noteq> None) \<and>
   (snd (snd (call h engine w)) \<noteq> None \<longrightarrow>
      fst (snd (call h engine w)) = snd (score_function h engine w)) \<and>
   (counter h \<noteq> None \<and>
    (\<forall>b. best_score h = Some b \<longrightarrow> (\<exists>bound. num_add_float b (min_delta h) = Inr bound)) \<longrightarrow>
      snd (snd (call h engine w)) = None) \<and>
   (pass_function hr = record_pass \<and> stop_function hr = record_stop \<and>
    snd (snd (call hr er wr)) = None \<longrightarrow>
      fst (snd (call hr er wr)) = snd (score_function hr er wr) @
        [if ge_int (counter (fst (call hr er wr))) (patience hr) = Inr True
         then StopCalled (trainer hr) else PassCalled (trainer hr)])"
proof -
  let ?u = "update_state (fst (score_function h engine w)) h"
  have a: "fst (call h engine w) = fst ?u"
    by (simp add: call_eq)
  have general: "snd (call h engine w)
        = ((if num_ge n (PyInt (patience h))
            then stop_function h (trainer h) (snd (score_function h engine w))
            else pass_function h (trainer h) (snd (score_function h engine w))), None)"
    if "snd ?u = None" "counter (fst (call h engine w)) = Some n" for n
    using that by (simp add: call_eq)
  have stop: "snd (call h engine w)
        = (stop_function h (trainer h) (snd (score_function h engine w)), None)"
    if "snd ?u = None" "counter (fst (call h engine w)) = Some (PyInt c)" "patience h \<le> c"
    using general [OF that(1,2)] that(3) by (simp add: num_ge_int)
  have pass: "snd (call h engine w)
        = (pass_function h (trainer h) (snd (score_function h engine w)), None)"
    if "snd ?u = None" "counter (fst (call h engine w)) = Some (PyInt c)" "c < patience h"
    using general [OF that(1,2)] that(3) by (simp add: num_ge_int)
  have number: "counter (fst (call h engine w)) \<noteq> None"
    if "snd ?u = None" "counter h \<noteq> None"
    using update_state_counter_number [OF that] by (simp add: a)
  have raised: "fst (snd (call h engine w)) = snd (score_function h engine w)"
    if "snd (snd (call h engine w)) \<noteq> None"
    using that by (simp add: call_eq split: option.splits sum.splits bool.splits)
  have completes: "snd (snd (call h engine w)) = None"
    if cn: "counter h \<noteq> None"
      and sums: "\<forall>b. best_score h = Some b \<longrightarrow> (\<exists>bound. num_add_float b (min_delta h) = Inr bound)"
  proof -
    have u: "snd ?u = None"
      using update_state_completes [OF cn sums] .
    obtain n where "counter (fst (call h engine w)) = Some n"
      using number [OF u cn] by blast
    then show ?thesis
      using general [OF u] by simp
  qed
  have recorded: "fst (snd (call hr er wr)) = snd (score_function hr er wr) @
        [if ge_int (counter (fst (call hr er wr))) (patience hr) = Inr True
         then StopCalled (trainer hr) else PassCalled (trainer hr)]"
    if "pass_function hr = record_pass" "stop_function hr = record_stop"
      "snd (snd (call hr er wr)) = None"
    using that
    by (simp add: call_eq record_pass_def record_stop_def
        split: option.splits sum.splits bool.splits)
  show ?thesis
    using a general stop pass number raised completes recorded by simp
qed

theorem call_invokes_exactly_one_callback_witness:
  "snd (update_state (PyFloat float_0_9)
      (recording_handler 3 (Finite 0 0) False (Some (PyInt 1)) (Some (PyFloat (Finite 1 0))))) = None \<and>
   counter (fst (call (recording_handler 3 (Finite 0 0) False (Some (PyInt 1))
      (Some (PyFloat (Finite 1 0)))) (PyFloat float_0_9) [])) = Some (PyInt 2) \<and>
   snd (call (recording_handler 3 (Finite 0 0) False (Some (PyInt 1))
      (Some (PyFloat (Finite 1 0)))) (PyFloat float_0_9) []) = ([PassCalled ''trainer''], None) \<and>
   snd (update_state (PyFloat float_0_9)
      (recording_handler 3 (Finite 0 0) False (Some (PyInt 2)) (Some (PyFloat (Finite 1 0))))) = None \<and>
   counter (fst (call (recording_handler 3 (Finite 0 0) False (Some (PyInt 2))
      (Some (PyFloat (Finite 1 0)))) (PyFloat float_0_9) [])) = Some (PyInt 3) \<and>
   snd (call (recording_handler 3 (Finite 0 0) False (Some (PyInt 2))
      (Some (PyFloat (Finite 1 0)))) (PyFloat float_0_9) []) = ([StopCalled ''trainer''], None)"
proof -
  let ?h1 = "recording_handler 3 (Finite 0 0) False (Some (PyInt 1)) (Some (PyFloat (Finite 1 0)))"
  let ?h2 = "recording_handler 3 (Finite 0 0) False (Some (PyInt 2)) (Some (PyFloat (Finite 1 0)))"
  have u1: "snd (update_state (PyFloat float_0_9) ?h1) = None"
    and c1: "counter (fst (call ?h1 (PyFloat float_0_9) [])) = Some (PyInt 2)"
    and u2: "snd (update_state (PyFloat float_0_9) ?h2) = None"
    and c2: "counter (fst (call ?h2 (PyFloat float_0_9) [])) = Some (PyInt 3)"
    by code_simp+
  have s: "fst (score_function ?h1 (PyFloat float_0_9) []) = PyFloat float_0_9"
    "fst (score_function ?h2 (PyFloat float_0_9) []) = PyFloat float_0_9"
    by (simp_all add: recording_handler_def metric_score_def)
  have pat: "patience ?h1 = 3" "patience ?h2 = 3"
    by (simp_all add: recording_handler_def)
  have r1: "pass_function ?h1 (trainer ?h1) (snd (score_function ?h1 (PyFloat float_0_9) []))
      = [PassCalled ''trainer'']"
    and r2: "stop_function ?h2 (trainer ?h2) (snd (score_function ?h2 (PyFloat float_0_9) []))
      = [StopCalled ''trainer'']"
    by (simp_all add: recording_handler_def metric_score_def record_pass_def record_stop_def)
  have p: "snd (call ?h1 (PyFloat float_0_9) []) = ([PassCalled ''trainer''], None)"
    using call_invokes_exactly_one_callback
      [where h = ?h1 and engine = "PyFloat float_0_9" and w = "[]" and c = 2,
        THEN conjunct2, THEN conjunct2, THEN conjunct2, THEN conjunct1] u1 c1 s pat r1
    by simp
  have q: "snd (call ?h2 (PyFloat float_0_9) []) = ([StopCalled ''trainer''], None)"
    using call_invokes_exactly_one_callback
      [where h = ?h2 and engine = "PyFloat float_0_9" and w = "[]" and c = 3,
        THEN conjunct2, THEN conjunct2, THEN conjunct1] u2 c2 s pat r2
    by simp
  show ?thesis using u1 c1 u2 c2 p q by simp
qed

text \<open>
  C10. A call changes at most the counter and the best score of the handler: the
  patience, the minimal delta, the cumulative flag, the three callbacks and the
  trainer are the same after the call, for every engine and world, hence every score,
  whether the call raises or not.
\<close>

theorem call_frame:
  "(\<exists>c b. fst (call h engine w) = h\<lparr>counter := c, best_score := b\<rparr>) \<and>
   patience (fst (call h engine w)) = patience h \<and>
   min_delta (fst (call h engine w)) = min_delta h \<and>
   cumulative_delta (fst (call h engine w)) = cumulative_delta h \<and>
   score_function (fst (call h engine w)) = score_function h \<and>
   pass_function (fst (call h engine w)) = pass_function h \<and>
   stop_function (fst (call h engine w)) = stop_function h \<and>
   trainer (fst (call h engine w)) = trainer h"
  by (simp add: call_eq update_state_config update_state_frame)

subsection \<open>Small improvements\<close>






subsection \<open>The scenario with patience 3\<close>

text \<open>
  C7. A fresh handler with patience 3, minimal delta 0 and cumulative mode off, fed the
  scores 1.0, 0.9, 0.9, 0.9, has the counters 0, 1, 2, 3 after the four calls; the
  pass callback is called in each of the first three calls and the stop callback in
  the fourth, and in no other; no call raises.
\<close>

theorem scenario_patience_3:
  "NoImprovementHandler_init 3 (Callable metric_score) (Callable record_pass)
     (Callable record_stop) (EngineInstance ''trainer'') (Finite 0 0) False
     = Inr (recording_handler 3 (Finite 0 0) False (Some (PyInt 0)) None) \<and>
   map (\<lambda>r. counter (fst r))
     (run (recording_handler 3 (Finite 0 0) False (Some (PyInt 0)) None)
        [PyFloat (Finite 1 0), PyFloat float_0_9, PyFloat float_0_9, PyFloat float_0_9] [])
     = [Some (PyInt 0), Some (PyInt 1), Some (PyInt 2), Some (PyInt 3)] \<and>
   map snd
     (run (recording_handler 3 (Finite 0 0) False (Some (PyInt 0)) None)
        [PyFloat (Finite 1 0), PyFloat float_0_9, PyFloat float_0_9, PyFloat float_0_9] [])
     = [([PassCalled ''trainer''], None),
        ([PassCalled ''trainer'', PassCalled ''trainer''], None),
        ([PassCalled ''trainer'', PassCalled ''trainer'', PassCalled ''trainer''], None),
        ([PassCalled ''trainer'', PassCalled ''trainer'', PassCalled ''trainer'',
          StopCalled ''trainer''], None)]"
proof -
  have i: "NoImprovementHandler_init 3 (Callable metric_score) (Callable record_pass)
     (Callable record_stop) (EngineInstance ''trainer'') (Finite 0 0) False
     = Inr (recording_handler 3 (Finite 0 0) False (Some (PyInt 0)) None)"
    by (simp add: NoImprovementHandler_init_def recording_handler_def fin_lt_def)
  have c: "map (\<lambda>r. counter (fst r))
     (run (recording_handler 3 (Finite 0 0) False (Some (PyInt 0)) None)
        [PyFloat (Finite 1 0), PyFloat float_0_9, PyFloat float_0_9, PyFloat float_0_9] [])
     = [Some (PyInt 0), Some (PyInt 1), Some (PyInt 2), Some (PyInt 3)]"
    by code_simp
  have w: "map snd
     (run (recording_handler 3 (Finite 0 0) False (Some (PyInt 0)) None)
        [PyFloat (Finite 1 0), PyFloat float_0_9, PyFloat float_0_9, PyFloat float_0_9] [])
     = [([PassCalled ''trainer''], None),
        ([PassCalled ''trainer'', PassCalled ''trainer''], None),
        ([PassCalled ''trainer'', PassCalled ''trainer'', PassCalled ''trainer''], None),
        ([PassCalled ''trainer'', PassCalled ''trainer'', PassCalled ''trainer'',
          StopCalled ''trainer''], None)]"
    by code_simp
  show ?thesis using i c w by simp
qed

subsection \<open>Validation in the constructor\<close>

text \<open>
  C3, as stated, fails: a patience below 1 is rejected with a \<^verbatim>\<open>ValueError\<close>, not
  with a type error. Here the constructor is given a patience of 0 and otherwise valid
  arguments.
\<close>

theorem init_patience_zero_raises_ValueError:
  "NoImprovementHandler_init 0 (Callable metric_score) (Callable record_pass)
     (Callable record_stop) (EngineInstance ''trainer'') (Finite 0 0) False
     = Inl (ValueError ''Argument patience should be positive integer.'') \<and>
   \<not> raises_TypeError (NoImprovementHandler_init 0 (Callable metric_score) (Callable record_pass)
     (Callable record_stop) (EngineInstance ''trainer'') (Finite 0 0) False)"
  by (simp add: NoImprovementHandler_init_def raises_TypeError_def)

text \<open>
  C3, amended. The constructor fails, before any call, exactly when a callback is not
  callable, the trainer is not an engine, the patience is below 1 or the minimal delta
  is negative (\<^verbatim>\<open>min_delta < 0.0\<close>): with a \<^verbatim>\<open>TypeError\<close> exactly in the first four
  cases, and with a \<^verbatim>\<open>ValueError\<close> exactly when the four type checks pass and the
  patience is below 1 or the minimal delta is negative. The rejections of patience 0,
  of minimal delta -0.1 and of each argument that is not callable are five different
  errors.
\<close>

theorem init_validation:
  "((\<exists>e. NoImprovementHandler_init p sf pf stf tr md cd = Inl e) \<longleftrightarrow>
      (sf = NotCallable \<or> pf = NotCallable \<or> stf = NotCallable \<or> tr = NotEngine \<or>
       p < 1 \<or> float_lt md (Finite 0 0))) \<and>
   (raises_TypeError (NoImprovementHandler_init p sf pf stf tr md cd) \<longleftrightarrow>
      (sf = NotCallable \<or> pf = NotCallable \<or> stf = NotCallable \<or> tr = NotEngine)) \<and>
   (raises_ValueError (NoImprovementHandler_init p sf pf stf tr md cd) \<longleftrightarrow>
      (sf \<noteq> NotCallable \<and> pf \<noteq> NotCallable \<and> stf \<noteq> NotCallable \<and> tr \<noteq> NotEngine \<and>
       (p < 1 \<or> float_lt md (Finite 0 0)))) \<and>
   distinct
     [NoImprovementHandler_init 0 (Callable f) (Callable g) (Callable s) (EngineInstance t)
        (Finite 0 0) cd,
      NoImprovementHandler_init 1 (Callable f) (Callable g) (Callable s) (EngineInstance t)
        float_neg_0_1 cd,
      NoImprovementHandler_init 1 NotCallable (Callable g) (Callable s) (EngineInstance t)
        (Finite 0 0) cd,
      NoImprovementHandler_init 1 (Callable f) NotCallable (Callable s) (EngineInstance t)
        (Finite 0 0) cd,
      NoImprovementHandler_init 1 (Callable f) (Callable g) NotCallable (EngineInstance t)
        (Finite 0 0) cd]"
  by (cases sf; cases pf; cases stf; cases tr)
     (simp_all add: NoImprovementHandler_init_def raises_TypeError_def raises_ValueError_def
        float_neg_0_1_def fin_lt_def)

lemma float_neg_0_1_negative: "float_lt float_neg_0_1 (Finite 0 0)"
  by code_simp

lemma float_zero_not_negative: "\<not> float_lt (Finite 0 0) (Finite 0 0)"
  by code_simp

theorem init_validation_witness:
  "(\<exists>e. NoImprovementHandler_init 1 (Callable metric_score) (Callable record_pass) (Callable record_stop)
      (EngineInstance ''trainer'') float_neg_0_1 False = Inl e) \<and>
   raises_ValueError (NoImprovementHandler_init 1 (Callable metric_score) (Callable record_pass)
      (Callable record_stop) (EngineInstance ''trainer'') float_neg_0_1 False) \<and>
   raises_TypeError (NoImprovementHandler_init 1 (Callable metric_score) NotCallable
      (Callable record_stop) (EngineInstance ''trainer'') (Finite 0 0) False) \<and>
   \<not> (\<exists>e. NoImprovementHandler_init 1 (Callable metric_score) (Callable record_pass) (Callable record_stop)
      (EngineInstance ''trainer'') (Finite 0 0) False = Inl e)"
  using init_validation
      [of 1 "Callable metric_score" "Callable record_pass" "Callable record_stop"
          "EngineInstance ''trainer''" float_neg_0_1 False
          metric_score record_pass record_stop "''trainer''"]
    init_validation
      [of 1 "Callable metric_score" NotCallable "Callable record_stop"
          "EngineInstance ''trainer''" "Finite 0 0" False
          metric_score record_pass record_stop "''trainer''"]
    init_validation
      [of 1 "Callable metric_score" "Callable record_pass" "Callable record_stop"
          "EngineInstance ''trainer''" "Finite 0 0" False
          metric_score record_pass record_stop "''trainer''"]
    float_neg_0_1_negative float_zero_not_negative
  by simp

subsection \<open>Improving scores\<close>











subsection \<open>Saving and restoring\<close>

lemma Serializable_load_state_dict_None:
  "Serializable_load_state_dict req sd = None \<longleftrightarrow> (\<forall>k \<in> set req. map_of sd k \<noteq> None)"
  by (induction req) auto

lemma load_state_dict_success:
  "\<forall>k \<in> set req. map_of sd k \<noteq> None \<Longrightarrow> map_of sd ''counter'' = Some c \<Longrightarrow>
   map_of sd ''best_score'' = Some b \<Longrightarrow>
   load_state_dict req h sd = (h\<lparr>counter := c, best_score := b\<rparr>, None)"
  using Serializable_load_state_dict_None [of req sd]
  by (simp add: load_state_dict_def)

lemma load_state_dict_needs_keys:
  "snd (load_state_dict req h sd) = None \<Longrightarrow>
   (\<forall>k \<in> set req. map_of sd k \<noteq> None) \<and> map_of sd ''counter'' \<noteq> None \<and>
   map_of sd ''best_score'' \<noteq> None"
  using Serializable_load_state_dict_None [of req sd]
  by (auto simp: load_state_dict_def Let_def split: option.splits)

lemma load_state_dict_state_dict:
  "set req \<subseteq> {''counter'', ''best_score''} \<Longrightarrow>
   load_state_dict req h0 (state_dict h)
     = (h0\<lparr>counter := counter h, best_score := best_score h\<rparr>, None)"
proof -
  assume req: "set req \<subseteq> {''counter'', ''best_score''}"
  have keys: "\<forall>k \<in> set req. map_of (state_dict h) k \<noteq> None"
    using req by (auto simp: state_dict_def)
  have c: "map_of (state_dict h) ''counter'' = Some (counter h)"
    by (simp add: state_dict_def)
  have b: "map_of (state_dict h) ''best_score'' = Some (best_score h)"
    by (simp add: state_dict_def)
  show ?thesis
    using load_state_dict_success [OF keys c b, of h0] by simp
qed

lemma NoImprovementHandler_init_fresh:
  "NoImprovementHandler_init p sf pf stf tr md cd = Inr h \<Longrightarrow>
   counter h = Some (PyInt 0) \<and> best_score h = None"
  by (auto simp: NoImprovementHandler_init_def split: pyarg.splits pyobj.splits if_splits)

text \<open>
  C6. Let \<open>fresh\<close> be a handler as the constructor builds it and \<open>h\<close> a handler of the
  same configuration in any state, with counter \<open>c\<close> and best score \<open>b\<close>. Saving
  \<open>h\<close> with \<open>state_dict\<close> and restoring into \<open>fresh\<close> with \<open>load_state_dict\<close> succeeds
  and gives a handler with the counter and the best score of \<open>h\<close>; it is \<open>h\<close> itself,
  so on every following sequence of calls the two make the same decisions: the
  handlers, the worlds and the exceptions after every call are equal. The same holds
  for \<^verbatim>\<open>EarlyStopping\<close> with its required keys.
\<close>

theorem state_dict_round_trip:
  "(NoImprovementHandler_init p sf pf stf tr md cd = Inr fresh \<and>
    set req \<subseteq> {''counter'', ''best_score''} \<and> h = fresh\<lparr>counter := c, best_score := b\<rparr> \<longrightarrow>
      counter fresh = Some (PyInt 0) \<and> best_score fresh = None \<and>
      snd (load_state_dict req fresh (state_dict h)) = None \<and>
      counter (fst (load_state_dict req fresh (state_dict h))) = c \<and>
      best_score (fst (load_state_dict req fresh (state_dict h))) = b \<and>
      fst (load_state_dict req fresh (state_dict h)) = h \<and>
      run (fst (load_state_dict req fresh (state_dict h))) es w = run h es w) \<and>
   (EarlyStopping_init ext p' sf' tr' md' cd' = Inr fresh' \<and>
    h' = fresh'\<lparr>counter := c, best_score := b\<rparr> \<longrightarrow>
      snd (load_state_dict EarlyStopping_state_dict_all_req_keys fresh' (state_dict h')) = None \<and>
      fst (load_state_dict EarlyStopping_state_dict_all_req_keys fresh' (state_dict h')) = h' \<and>
      run (fst (load_state_dict EarlyStopping_state_dict_all_req_keys fresh' (state_dict h'))) es' w'
        = run h' es' w')"
proof -
  have one: "load_state_dict req fresh (state_dict h) = (h, None)"
    if "set req \<subseteq> {''counter'', ''best_score''}" "h = fresh\<lparr>counter := c, best_score := b\<rparr>"
    using that load_state_dict_state_dict [of req fresh h] by simp
  have two: "load_state_dict EarlyStopping_state_dict_all_req_keys fresh' (state_dict h') = (h', None)"
    if "h' = fresh'\<lparr>counter := c, best_score := b\<rparr>"
    using that load_state_dict_state_dict [of EarlyStopping_state_dict_all_req_keys fresh' h']
    by (simp add: EarlyStopping_state_dict_all_req_keys_def)
  show ?thesis
    using one two NoImprovementHandler_init_fresh [of p sf pf stf tr md cd fresh]
    by auto
qed

lemma recording_early_stopping_init:
  "EarlyStopping_init recording 3 (Callable metric_score) (EngineInstance ''trainer'') (Finite 0 0) False
     = Inr (recording_early_stopping 3 (Finite 0 0) False (Some (PyInt 0)) None)"
  by (simp add: EarlyStopping_init_def NoImprovementHandler_init_def recording_early_stopping_def
      recording_def NoImprovementHandler.extend_def EarlyStopping.fields_def fin_lt_def)

lemma recording_handler_init:
  "NoImprovementHandler_init 3 (Callable metric_score) (Callable record_pass)
      (Callable record_stop) (EngineInstance ''trainer'') (Finite 0 0) False
      = Inr (recording_handler 3 (Finite 0 0) False (Some (PyInt 0)) None)"
  by (simp add: NoImprovementHandler_init_def recording_handler_def fin_lt_def)

theorem state_dict_round_trip_witness:
  "NoImprovementHandler_init 3 (Callable metric_score) (Callable record_pass) (Callable record_stop)
     (EngineInstance ''trainer'') (Finite 0 0) False
     = Inr (recording_handler 3 (Finite 0 0) False (Some (PyInt 0)) None) \<and>
   load_state_dict [] (recording_handler 3 (Finite 0 0) False (Some (PyInt 0)) None)
     (state_dict (recording_handler 3 (Finite 0 0) False (Some (PyInt 3))
        (Some (PyFloat float_neg_0_5))))
     = (recording_handler 3 (Finite 0 0) False (Some (PyInt 3)) (Some (PyFloat float_neg_0_5)), None) \<and>
   run (fst (load_state_dict [] (recording_handler 3 (Finite 0 0) False (Some (PyInt 0)) None)
             (state_dict (recording_handler 3 (Finite 0 0) False (Some (PyInt 3))
                (Some (PyFloat float_neg_0_5))))))
       [PyFloat float_neg_0_6, PyFloat (Finite 0 0)] []
     = run (recording_handler 3 (Finite 0 0) False (Some (PyInt 3)) (Some (PyFloat float_neg_0_5)))
         [PyFloat float_neg_0_6, PyFloat (Finite 0 0)] [] \<and>
   EarlyStopping_init recording 3 (Callable metric_score) (EngineInstance ''trainer'') (Finite 0 0) False
     = Inr (recording_early_stopping 3 (Finite 0 0) False (Some (PyInt 0)) None) \<and>
   load_state_dict EarlyStopping_state_dict_all_req_keys
     (recording_early_stopping 3 (Finite 0 0) False (Some (PyInt 0)) None)
     (state_dict (recording_early_stopping 3 (Finite 0 0) False (Some (PyInt 3))
        (Some (PyFloat float_neg_0_5))))
     = (recording_early_stopping 3 (Finite 0 0) False (Some (PyInt 3))
          (Some (PyFloat float_neg_0_5)), None)"
proof -
  let ?f = "recording_handler 3 (Finite 0 0) False (Some (PyInt 0)) None"
  let ?h = "recording_handler 3 (Finite 0 0) False (Some (PyInt 3)) (Some (PyFloat float_neg_0_5))"
  let ?f' = "recording_early_stopping 3 (Finite 0 0) False (Some (PyInt 0)) None"
  let ?h' = "recording_early_stopping 3 (Finite 0 0) False (Some (PyInt 3))
      (Some (PyFloat float_neg_0_5))"
  have h: "?h = ?f\<lparr>counter := Some (PyInt 3), best_score := Some (PyFloat float_neg_0_5)\<rparr>"
    by (simp add: recording_handler_def)
  have h': "?h' = ?f'\<lparr>counter := Some (PyInt 3), best_score := Some (PyFloat float_neg_0_5)\<rparr>"
    by (simp add: recording_early_stopping_def)
  have r: "set [] \<subseteq> {''counter'', ''best_score''}"
    by simp
  note rt = state_dict_round_trip
      [where p = 3 and sf = "Callable metric_score" and pf = "Callable record_pass"
         and stf = "Callable record_stop" and tr = "EngineInstance ''trainer''"
         and md = "Finite 0 0" and cd = False and fresh = ?f and req = "[]"
         and h = ?h and c = "Some (PyInt 3)" and b = "Some (PyFloat float_neg_0_5)"
         and es = "[PyFloat float_neg_0_6, PyFloat (Finite 0 0)]" and w = "[]"
         and ext = recording and p' = 3 and sf' = "Callable metric_score"
         and tr' = "EngineInstance ''trainer''" and md' = "Finite 0 0" and cd' = False
         and fresh' = ?f' and h' = ?h' and es' = "[]" and w' = "[]"]
  from rt recording_handler_init h r
  have a: "snd (load_state_dict [] ?f (state_dict ?h)) = None"
    and b: "fst (load_state_dict [] ?f (state_dict ?h)) = ?h"
    by blast+
  from rt recording_early_stopping_init h'
  have a': "snd (load_state_dict EarlyStopping_state_dict_all_req_keys ?f' (state_dict ?h')) = None"
    and b': "fst (load_state_dict EarlyStopping_state_dict_all_req_keys ?f' (state_dict ?h')) = ?h'"
    by blast+
  show ?thesis
    using a b a' b' recording_handler_init recording_early_stopping_init
    by (simp add: prod_eq_iff)
qed

text \<open>
  C9. The saved state has exactly the two keys \<^verbatim>\<open>counter\<close> and \<^verbatim>\<open>best_score\<close>, with
  the counter and the best score as values. Restoring succeeds exactly when both keys
  (and the keys that the class requires) are present, and then the counter and the
  best score are overwritten with the values given, as they are: an int of any sign,
  a float, \<^verbatim>\<open>None\<close>; nothing is checked. For \<^verbatim>\<open>EarlyStopping\<close> the required keys are
  these two.
\<close>

theorem persisted_state_two_fields:
  "map fst (state_dict h) = [''counter'', ''best_score''] \<and>
   map_of (state_dict h) ''counter'' = Some (counter h) \<and>
   map_of (state_dict h) ''best_score'' = Some (best_score h) \<and>
   (snd (load_state_dict req h0 sd) = None \<longleftrightarrow>
      (\<forall>k \<in> set req. map_of sd k \<noteq> None) \<and> map_of sd ''counter'' \<noteq> None \<and>
      map_of sd ''best_score'' \<noteq> None) \<and>
   ((\<forall>k \<in> set req. map_of sd k \<noteq> None) \<and> map_of sd ''counter'' = Some c \<and>
    map_of sd ''best_score'' = Some b \<longrightarrow>
      load_state_dict req h0 sd = (h0\<lparr>counter := c, best_score := b\<rparr>, None)) \<and>
   (snd (load_state_dict EarlyStopping_state_dict_all_req_keys h0 sd) = None \<longleftrightarrow>
      map_of sd ''counter'' \<noteq> None \<and> map_of sd ''best_score'' \<noteq> None) \<and>
   (map_of sd ''counter'' = Some c \<and> map_of sd ''best_score'' = Some b \<longrightarrow>
      load_state_dict EarlyStopping_state_dict_all_req_keys h0 sd
        = (h0\<lparr>counter := c, best_score := b\<rparr>, None))"
proof -
  have ok: "snd (load_state_dict r h0 sd) = None"
    if keys: "\<forall>k \<in> set r. map_of sd k \<noteq> None" and cb: "map_of sd ''counter'' \<noteq> None"
      "map_of sd ''best_score'' \<noteq> None" for r
  proof -
    obtain c' b' where "map_of sd ''counter'' = Some c'" "map_of sd ''best_score'' = Some b'"
      using cb by blast
    then show ?thesis
      using load_state_dict_success [OF keys, of c' b' h0] by simp
  qed
  have iff: "snd (load_state_dict r h0 sd) = None \<longleftrightarrow>
      (\<forall>k \<in> set r. map_of sd k \<noteq> None) \<and> map_of sd ''counter'' \<noteq> None \<and>
      map_of sd ''best_score'' \<noteq> None" for r
    using ok [of r] load_state_dict_needs_keys [of r h0 sd] by blast
  have es: "load_state_dict EarlyStopping_state_dict_all_req_keys h0 sd
        = (h0\<lparr>counter := c, best_score := b\<rparr>, None)"
    if "map_of sd ''counter'' = Some c" "map_of sd ''best_score'' = Some b"
    using that load_state_dict_success [of EarlyStopping_state_dict_all_req_keys sd c b h0]
    by (simp add: EarlyStopping_state_dict_all_req_keys_def)
  have es_iff: "snd (load_state_dict EarlyStopping_state_dict_all_req_keys h0 sd) = None \<longleftrightarrow>
      map_of sd ''counter'' \<noteq> None \<and> map_of sd ''best_score'' \<noteq> None"
    using iff [of EarlyStopping_state_dict_all_req_keys]
    by (auto simp: EarlyStopping_state_dict_all_req_keys_def)
  show ?thesis
    using es es_iff iff [of req] load_state_dict_success [of req sd c b h0]
    by (simp add: state_dict_def)
qed

theorem persisted_state_two_fields_witness:
  "load_state_dict [] (recording_handler 3 (Finite 0 0) False (Some (PyInt 0)) None)
     [(''counter'', Some (PyFloat float_2_5)), (''best_score'', Some (PyFloat (Finite 1 0)))]
     = (recording_handler 3 (Finite 0 0) False (Some (PyFloat float_2_5))
          (Some (PyFloat (Finite 1 0))), None) \<and>
   load_state_dict [''counter''] (recording_handler 3 (Finite 0 0) False (Some (PyInt 0)) None)
     [(''counter'', Some (PyInt (- 7))), (''best_score'', Some (PyFloat NaN))]
     = (recording_handler 3 (Finite 0 0) False (Some (PyInt (- 7))) (Some (PyFloat NaN)), None) \<and>
   load_state_dict EarlyStopping_state_dict_all_req_keys
     (recording_handler 3 (Finite 0 0) False (Some (PyInt 0)) (Some (PyInt 1)))
     [(''best_score'', None), (''counter'', None)]
     = (recording_handler 3 (Finite 0 0) False None None, None) \<and>
   snd (load_state_dict [] (recording_handler 3 (Finite 0 0) False (Some (PyInt 0)) None)
          [(''counter'', Some (PyInt 5))])
     = Some (KeyError ''best_score'') \<and>
   snd (load_state_dict [] (recording_handler 3 (Finite 0 0) False (Some (PyInt 0)) None)
          [(''best_score'', Some (PyInt 1))])
     = Some (KeyError ''counter'')"
proof -
  have a: "load_state_dict [] (recording_handler 3 (Finite 0 0) False (Some (PyInt 0)) None)
     [(''counter'', Some (PyFloat float_2_5)), (''best_score'', Some (PyFloat (Finite 1 0)))]
     = (recording_handler 3 (Finite 0 0) False (Some (PyFloat float_2_5))
          (Some (PyFloat (Finite 1 0))), None)"
    using persisted_state_two_fields
      [where req = "[]" and ?h0.0 = "recording_handler 3 (Finite 0 0) False (Some (PyInt 0)) None"
         and sd = "[(''counter'', Some (PyFloat float_2_5)),
                    (''best_score'', Some (PyFloat (Finite 1 0)))]"
         and c = "Some (PyFloat float_2_5)" and b = "Some (PyFloat (Finite 1 0))"
         and h = "recording_handler 3 (Finite 0 0) False (Some (PyInt 0)) None"]
    by (simp add: recording_handler_def)
  have b: "load_state_dict [''counter''] (recording_handler 3 (Finite 0 0) False (Some (PyInt 0)) None)
     [(''counter'', Some (PyInt (- 7))), (''best_score'', Some (PyFloat NaN))]
     = (recording_handler 3 (Finite 0 0) False (Some (PyInt (- 7))) (Some (PyFloat NaN)), None)"
    using persisted_state_two_fields
      [where req = "[''counter'']"
         and ?h0.0 = "recording_handler 3 (Finite 0 0) False (Some (PyInt 0)) None"
         and sd = "[(''counter'', Some (PyInt (- 7))), (''best_score'', Some (PyFloat NaN))]"
         and c = "Some (PyInt (- 7))" and b = "Some (PyFloat NaN)"
         and h = "recording_handler 3 (Finite 0 0) False (Some (PyInt 0)) None"]
    by (simp add: recording_handler_def)
  have c: "load_state_dict EarlyStopping_state_dict_all_req_keys
     (recording_handler 3 (Finite 0 0) False (Some (PyInt 0)) (Some (PyInt 1)))
     [(''best_score'', None), (''counter'', None)]
     = (recording_handler 3 (Finite 0 0) False None None, None)"
    using persisted_state_two_fields
      [where req = "[]"
         and ?h0.0 = "recording_handler 3 (Finite 0 0) False (Some (PyInt 0)) (Some (PyInt 1))"
         and sd = "[(''best_score'', None), (''counter'', None)]"
         and c = None and b = None
         and h = "recording_handler 3 (Finite 0 0) False (Some (PyInt 0)) None"]
    by (simp add: recording_handler_def)
  have d: "snd (load_state_dict [] (recording_handler 3 (Finite 0 0) False (Some (PyInt 0)) None)
          [(''counter'', Some (PyInt 5))])
     = Some (KeyError ''best_score'')"
    by (simp add: load_state_dict_def)
  have e: "snd (load_state_dict [] (recording_handler 3 (Finite 0 0) False (Some (PyInt 0)) None)
          [(''best_score'', Some (PyInt 1))])
     = Some (KeyError ''counter'')"
    by (simp add: load_state_dict_def)
  show ?thesis using a b c d e by simp
qed

subsection \<open>The stopping specialisation is the base class\<close>

lemma update_state_truncate:
  "update_state s (NoImprovementHandler.truncate h)
     = (NoImprovementHandler.truncate (fst (update_state s h)), snd (update_state s h))"
  by (simp add: update_state_def Let_def NoImprovementHandler.truncate_def
      split: option.split sum.split)

lemma call_truncate:
  "call (NoImprovementHandler.truncate h) e w
     = (NoImprovementHandler.truncate (fst (call h e w)), snd (call h e w))"
proof -
  have f: "score_function (NoImprovementHandler.truncate h) = score_function h"
    "patience (NoImprovementHandler.truncate h) = patience h"
    "stop_function (NoImprovementHandler.truncate h) = stop_function h"
    "pass_function (NoImprovementHandler.truncate h) = pass_function h"
    "trainer (NoImprovementHandler.truncate h) = trainer h"
    "\<And>x. counter (NoImprovementHandler.truncate x) = counter x"
    by (simp_all add: NoImprovementHandler.truncate_def)
  show ?thesis
    by (simp add: call_eq [of "NoImprovementHandler.truncate h"] call_eq [of h]
        update_state_truncate f split: option.split sum.split bool.split)
qed

lemma EarlyStopping_init_Inl:
  "EarlyStopping_init ext p sf ta md cd = Inl err \<longleftrightarrow>
   NoImprovementHandler_init p sf (Callable pf) (Callable stf) ta md cd = Inl err"
  by (cases sf; cases ta)
     (auto simp: EarlyStopping_init_def NoImprovementHandler_init_def Let_def)

lemma EarlyStopping_init_Inr:
  "EarlyStopping_init ext p sf ta md cd = Inr es \<Longrightarrow>
   NoImprovementHandler_init p sf (Callable EarlyStopping_pass_function)
     (Callable (EarlyStopping_stop_function ext (logger es))) ta md cd
     = Inr (NoImprovementHandler.truncate es) \<and>
   logger es = setup_logger ext EarlyStopping_logger_name \<and>
   pass_function es = EarlyStopping_pass_function \<and>
   stop_function es = EarlyStopping_stop_function ext (logger es) \<and>
   counter es = Some (PyInt 0) \<and> best_score es = None"
  by (cases sf; cases ta)
     (auto simp: EarlyStopping_init_def NoImprovementHandler_init_def Let_def
        NoImprovementHandler.extend_def NoImprovementHandler.truncate_def EarlyStopping.fields_def
        split: if_splits)

lemma EarlyStopping_call_logger: "logger (fst (EarlyStopping_call h engine w)) = logger h"
proof -
  have "NoImprovementHandler.more (fst (call h engine w)) = NoImprovementHandler.more h"
    by (simp add: call_eq update_state_config)
  then have "logger (fst (call h engine w)) = logger h"
    by (metis EarlyStopping.select_convs(1) EarlyStopping.surjective NoImprovementHandler.surjective
        NoImprovementHandler.select_convs(10))
  then show ?thesis by (simp add: EarlyStopping_call_def)
qed

text \<open>
  C8. \<^verbatim>\<open>EarlyStopping\<close> fixes the pass callback to a function that does nothing and the
  stop callback to logging the message at level info and then calling \<^verbatim>\<open>terminate\<close>
  on the trainer. Its constructor fails exactly when the constructor of the base class
  fails, with the same error, and otherwise builds the handler of the base class with
  these two callbacks and a logger. A call is the call of the base class: the same
  update and the same decision, with the logger untouched; a handler is nothing more
  than the fields of the base class and the logger.
\<close>

theorem EarlyStopping_specialisation:
  "EarlyStopping_pass_function tr w = w \<and>
   EarlyStopping_stop_function ext lg tr w
     = terminate ext tr (logger_info ext lg ''EarlyStopping: Stop training'' w) \<and>
   (EarlyStopping_init ext p sf ta md cd = Inl err \<longleftrightarrow>
      NoImprovementHandler_init p sf (Callable pf) (Callable stf) ta md cd = Inl err) \<and>
   (EarlyStopping_init ext p sf ta md cd = Inr es \<longrightarrow>
      NoImprovementHandler_init p sf (Callable EarlyStopping_pass_function)
        (Callable (EarlyStopping_stop_function ext (logger es))) ta md cd
        = Inr (NoImprovementHandler.truncate es) \<and>
      logger es = setup_logger ext EarlyStopping_logger_name \<and>
      pass_function es = EarlyStopping_pass_function \<and>
      stop_function es = EarlyStopping_stop_function ext (logger es) \<and>
      (snd (update_state (fst (score_function es engine w))
              (es\<lparr>counter := c, best_score := b\<rparr>)) = None \<and>
       counter (fst (EarlyStopping_call (es\<lparr>counter := c, best_score := b\<rparr>) engine w)) = Some n \<longrightarrow>
         snd (EarlyStopping_call (es\<lparr>counter := c, best_score := b\<rparr>) engine w)
           = ((if num_ge n (PyInt (patience es))
               then terminate ext (trainer es)
                      (logger_info ext (logger es) ''EarlyStopping: Stop training''
                         (snd (score_function es engine w)))
               else snd (score_function es engine w)), None))) \<and>
   NoImprovementHandler.truncate (fst (EarlyStopping_call h engine w))
     = fst (call (NoImprovementHandler.truncate h) engine w) \<and>
   snd (EarlyStopping_call h engine w) = snd (call (NoImprovementHandler.truncate h) engine w) \<and>
   logger (fst (EarlyStopping_call h engine w)) = logger h \<and>
   h = NoImprovementHandler.extend (NoImprovementHandler.truncate h) (EarlyStopping.fields (logger h))"
proof -
  have one: "EarlyStopping_pass_function tr w = w"
    by (simp add: EarlyStopping_pass_function_def)
  have two: "EarlyStopping_stop_function ext lg tr w
     = terminate ext tr (logger_info ext lg ''EarlyStopping: Stop training'' w)"
    by (simp add: EarlyStopping_stop_function_def)
  have dec: "snd (EarlyStopping_call (es\<lparr>counter := c, best_score := b\<rparr>) engine w)
           = ((if num_ge n (PyInt (patience es))
               then terminate ext (trainer es)
                      (logger_info ext (logger es) ''EarlyStopping: Stop training''
                         (snd (score_function es engine w)))
               else snd (score_function es engine w)), None)"
    if "pass_function es = EarlyStopping_pass_function"
      "stop_function es = EarlyStopping_stop_function ext (logger es)"
      "snd (update_state (fst (score_function es engine w))
              (es\<lparr>counter := c, best_score := b\<rparr>)) = None"
      "counter (fst (EarlyStopping_call (es\<lparr>counter := c, best_score := b\<rparr>) engine w)) = Some n"
    using that
    by (simp add: EarlyStopping_call_def call_eq EarlyStopping_pass_function_def
        EarlyStopping_stop_function_def)
  have four: "h = NoImprovementHandler.extend (NoImprovementHandler.truncate h)
      (EarlyStopping.fields (logger h))"
    by (simp add: NoImprovementHandler.extend_def NoImprovementHandler.truncate_def
        EarlyStopping.fields_def)
  have five: "NoImprovementHandler.truncate (fst (EarlyStopping_call h engine w))
     = fst (call (NoImprovementHandler.truncate h) engine w)"
    "snd (EarlyStopping_call h engine w) = snd (call (NoImprovementHandler.truncate h) engine w)"
    using call_truncate [of h engine w] by (simp_all add: EarlyStopping_call_def)
  show ?thesis
    using one two dec four five EarlyStopping_init_Inl [of ext p sf ta md cd err pf stf]
      EarlyStopping_init_Inr [of ext p sf ta md cd es] EarlyStopping_call_logger [of h engine w]
    by blast
qed

theorem EarlyStopping_specialisation_witness:
  "EarlyStopping_init recording 3 (Callable metric_score) (EngineInstance ''trainer'') (Finite 0 0) False
     = Inr (recording_early_stopping 3 (Finite 0 0) False (Some (PyInt 0)) None) \<and>
   snd (EarlyStopping_call (recording_early_stopping 3 (Finite 0 0) False (Some (PyInt 1))
      (Some (PyFloat (Finite 1 0)))) (PyFloat float_0_9) []) = ([], None) \<and>
   snd (EarlyStopping_call (recording_early_stopping 3 (Finite 0 0) False (Some (PyInt 2))
      (Some (PyFloat (Finite 1 0)))) (PyFloat float_0_9) [])
     = ([LoggedInfo ''ignite.handlers.early_stopping.EarlyStopping'' ''EarlyStopping: Stop training'',
         Terminated ''trainer''], None) \<and>
   EarlyStopping_init recording 0 (Callable metric_score) (EngineInstance ''trainer'') (Finite 0 0) False
     = Inl (ValueError ''Argument patience should be positive integer.'')"
proof -
  let ?f = "recording_early_stopping 3 (Finite 0 0) False (Some (PyInt 0)) None"
  let ?a = "recording_early_stopping 3 (Finite 0 0) False (Some (PyInt 1)) (Some (PyFloat (Finite 1 0)))"
  let ?b = "recording_early_stopping 3 (Finite 0 0) False (Some (PyInt 2)) (Some (PyFloat (Finite 1 0)))"
  note sp1 = EarlyStopping_specialisation
      [where ext = recording and p = 3 and sf = "Callable metric_score"
         and ta = "EngineInstance ''trainer''" and md = "Finite 0 0" and cd = False
         and es = ?f and engine = "PyFloat float_0_9" and w = "[]" and h = ?f
         and c = "Some (PyInt 1)" and b = "Some (PyFloat (Finite 1 0))" and n = "PyInt 2",
       THEN conjunct2, THEN conjunct2, THEN conjunct2, THEN conjunct1]
  note sp2 = EarlyStopping_specialisation
      [where ext = recording and p = 3 and sf = "Callable metric_score"
         and ta = "EngineInstance ''trainer''" and md = "Finite 0 0" and cd = False
         and es = ?f and engine = "PyFloat float_0_9" and w = "[]" and h = ?f
         and c = "Some (PyInt 2)" and b = "Some (PyFloat (Finite 1 0))" and n = "PyInt 3",
       THEN conjunct2, THEN conjunct2, THEN conjunct2, THEN conjunct1]
  have u1: "?a = ?f\<lparr>counter := Some (PyInt 1), best_score := Some (PyFloat (Finite 1 0))\<rparr>"
    and u2: "?b = ?f\<lparr>counter := Some (PyInt 2), best_score := Some (PyFloat (Finite 1 0))\<rparr>"
    by (simp_all add: recording_early_stopping_def)
  have s: "fst (score_function ?f (PyFloat float_0_9) []) = PyFloat float_0_9"
    "snd (score_function ?f (PyFloat float_0_9) []) = []"
    "patience ?f = 3" "trainer ?f = ''trainer''" "logger ?f = EarlyStopping_logger_name"
    by (simp_all add: recording_early_stopping_def metric_score_def)
  have e1: "snd (update_state (PyFloat float_0_9) ?a) = None"
    and c1: "counter (fst (EarlyStopping_call ?a (PyFloat float_0_9) [])) = Some (PyInt 2)"
    and e2: "snd (update_state (PyFloat float_0_9) ?b) = None"
    and c2: "counter (fst (EarlyStopping_call ?b (PyFloat float_0_9) [])) = Some (PyInt 3)"
    by code_simp+
  have a: "snd (EarlyStopping_call ?a (PyFloat float_0_9) []) = ([], None)"
    using sp1
      recording_early_stopping_init e1 c1 s unfolding u1 [symmetric]
    by (simp add: num_ge_int)
  have b: "snd (EarlyStopping_call ?b (PyFloat float_0_9) [])
     = ([LoggedInfo ''ignite.handlers.early_stopping.EarlyStopping'' ''EarlyStopping: Stop training'',
         Terminated ''trainer''], None)"
    using sp2
      recording_early_stopping_init e2 c2 s unfolding u2 [symmetric]
    by (simp add: num_ge_int recording_def record_info_def record_terminate_def
        EarlyStopping_logger_name_def)
  have e: "EarlyStopping_init recording 0 (Callable metric_score) (EngineInstance ''trainer'')
      (Finite 0 0) False
     = Inl (ValueError ''Argument patience should be positive integer.'')"
    using EarlyStopping_specialisation
      [where ext = recording and p = 0 and sf = "Callable metric_score"
         and ta = "EngineInstance ''trainer''" and md = "Finite 0 0" and cd = False
         and pf = record_pass and stf = record_stop
         and err = "ValueError ''Argument patience should be positive integer.''",
       THEN conjunct2, THEN conjunct2, THEN conjunct1]
    by (simp add: NoImprovementHandler_init_def)
  show ?thesis using a b e recording_early_stopping_init by simp
qed

end
